theory Spec2Isabelle
  imports Main
begin

section \<open>Values of the JavaScript runtime\<close>

text \<open>
  A value that a \<^verbatim>\<open>throw\<close> or a rejected promise carries. The code only ever asks two
  things of it: whether it is an \<^verbatim>\<open>instanceof Error\<close>, and then its \<^verbatim>\<open>name\<close> and
  \<^verbatim>\<open>message\<close>. Every other thrown value is \<open>NonError\<close>.
\<close>

datatype thrown = Error (err_name: string) (err_message: string) | NonError

text \<open>
  What awaiting a promise comes to: its value, the value it rejects with, or nothing at
  all, when the promise never settles.
\<close>

datatype 'a settled = Resolved 'a | Rejected thrown | Pending

text \<open>
  Arguments and JSON members: the primitive values the client passes around. The client
  does no arithmetic: a number is kept as the text it is written out as.
\<close>

datatype jsval = VUndefined | VStr string | VNum string | VBool bool

datatype image_file = File (file_name: string) (file_bytes: "nat list")

datatype form_value = FileEntry image_file | TextEntry string

text \<open>
  A request body: none, the text of \<^verbatim>\<open>JSON.stringify\<close> of an object (kept as its members),
  or a \<^verbatim>\<open>FormData\<close> with its entries in the order they were appended.
\<close>

datatype body = NoBody | JsonBody "(string \<times> jsval) list" | FormDataBody "(string \<times> form_value) list"

fun isFormData :: "body \<Rightarrow> bool" where
  "isFormData (FormDataBody _) = True"
| "isFormData _ = False"

text \<open>\<^verbatim>\<open>JSON.stringify\<close> of an object literal leaves out the members that are undefined.\<close>

definition JSON_stringify :: "(string \<times> jsval) list \<Rightarrow> body" where
  "JSON_stringify members = JsonBody (filter (\<lambda>(k, v). v \<noteq> VUndefined) members)"

text \<open>Positional parameter binding: a parameter with no argument is undefined.\<close>

definition arg :: "nat \<Rightarrow> jsval list \<Rightarrow> jsval" where
  "arg i args = (if i < length args then args ! i else VUndefined)"

text \<open>
  The exception of an aborted fetch, of reading a member of \<^verbatim>\<open>null\<close>, and of touching
  \<^verbatim>\<open>localStorage\<close> when the browser denies access to it. All three are instances of
  \<^verbatim>\<open>Error\<close>; the client inspects nothing but the name.
\<close>

definition AbortError :: thrown where
  "AbortError = Error ''AbortError'' ''The operation was aborted.''"

definition TypeError :: "string \<Rightarrow> thrown" where
  "TypeError member = Error ''TypeError'' (''Cannot read properties of null (reading '' @ member @ '')'')"

definition SecurityError :: thrown where
  "SecurityError = Error ''SecurityError'' ''The operation is insecure.''"

text \<open>The exception of a write to \<^verbatim>\<open>localStorage\<close> that the browser has no room for.\<close>

definition QuotaExceededError :: thrown where
  "QuotaExceededError = Error ''QuotaExceededError'' ''The quota has been exceeded.''"

section \<open>Requests, responses and the network\<close>

text \<open>The \<^verbatim>\<open>RequestInit\<close> members the client uses; \<open>signal\<close> says an abort signal is attached.\<close>

record request_init =
  http_method :: "string option"
  headers :: "string \<rightharpoonup> string"
  body :: body
  credentials :: "string option"
  signal :: bool

definition no_options :: request_init where
  "no_options = \<lparr>http_method = None, headers = Map.empty, body = NoBody, credentials = None, signal = False\<rparr>"

text \<open>
  The value a JSON body parses to. It may be \<^verbatim>\<open>null\<close>, and reading a member of that
  throws. Any other value is seen through the interfaces the code casts it to:
  \<^verbatim>\<open>ApiError\<close> (an \<^verbatim>\<open>error\<close> member that is a string when it is there) and the payload
  type \<^verbatim>\<open>T\<close>. A number, a string or an array has none of the members read, like an object
  without them.
\<close>

datatype 'a data = Null | Object "string option" 'a

text \<open>
  A response: its status and what \<^verbatim>\<open>response.json()\<close> comes to. It rejects with a
  \<^verbatim>\<open>SyntaxError\<close> when the body is not JSON, and it never settles when the body stops
  arriving after the headers. \<^verbatim>\<open>response.ok\<close> is a status from 200 to 299.
\<close>

record 'a response =
  status :: nat
  json :: "'a data settled"

definition ok :: "'a response \<Rightarrow> bool" where
  "ok r \<longleftrightarrow> 200 \<le> status r \<and> status r \<le> 299"

text \<open>
  What the far end does with one request, with the time in milliseconds after which it
  does it: it answers (the headers arrive), the connection fails, or nothing ever comes
  back.
\<close>

datatype 'a behaviour = Responds nat "'a response" | Fails nat thrown | Stalls

type_synonym 'a server = "string \<Rightarrow> request_init \<Rightarrow> 'a behaviour"

text \<open>
  A fetch whose signal is aborted by a timer of \<open>timeoutMs\<close>: whatever settles strictly
  before the timer wins, otherwise the fetch rejects with the abort exception. So a fetch
  with a timer always settles.
\<close>

fun settle :: "'a behaviour \<Rightarrow> nat \<Rightarrow> 'a response settled" where
  "settle (Responds t r) timeoutMs = (if t < timeoutMs then Resolved r else Rejected AbortError)"
| "settle (Fails t e) timeoutMs = (if t < timeoutMs then Rejected e else Rejected AbortError)"
| "settle Stalls timeoutMs = Rejected AbortError"

text \<open>The timer has run out before the far end did anything.\<close>

fun timed_out :: "'a behaviour \<Rightarrow> nat \<Rightarrow> bool" where
  "timed_out (Responds t r) timeoutMs = (timeoutMs \<le> t)"
| "timed_out (Fails t e) timeoutMs = (timeoutMs \<le> t)"
| "timed_out Stalls timeoutMs = True"

section \<open>The client's world\<close>

text \<open>The \<^verbatim>\<open>User\<close> interface of the auth context.\<close>

record user =
  uid :: int
  uname :: string
  uemail :: string
  profile_picture :: "string option"
  profile_picture_url :: "string option"
  created_at :: "string option"

text \<open>
  A string kept in \<^verbatim>\<open>localStorage\<close>, told apart by what the code does with it: the empty
  string is falsy, \<^verbatim>\<open>JSON.parse\<close> throws on text that is not JSON, the text \<^verbatim>\<open>null\<close>
  parses to \<^verbatim>\<open>null\<close>, and any other result is read through the \<^verbatim>\<open>StoredCredentials\<close>
  interface (members that are strings when they are there).
\<close>

datatype stored = EmptyText | NotJson | NullText
  | Credentials (cred_username: "string option") (cred_password: "string option")

text \<open>\<^verbatim>\<open>localStorage\<close> itself: the browser may deny access to it, and then every use throws.\<close>

datatype storage = Denied | Available "string \<rightharpoonup> stored"

datatype toast = Success string | Failure string

record fetch_call =
  call_url :: string
  call_init :: request_init
  call_timeout :: nat

text \<open>
  One constructor for each method of \<^verbatim>\<open>ApiClient\<close>, with the arguments of the call.
  \<^verbatim>\<open>login\<close> declares two parameters and is called with three arguments by the auth
  context, so it takes the argument list and binds by position. Omitted optional
  arguments are \<open>None\<close>; a page number is the text a template literal makes of it, and
  \<^verbatim>\<open>updateProfile\<close> takes the members of its argument in the caller's order.
\<close>

datatype api_call =
    Register string string string
  | Login "jsval list"
  | Logout
  | CheckAuth
  | ForgotPassword string
  | ResetPassword string string
  | VerifyResetToken string
  | Diagnose string
  | DiagnoseImage image_file "string option"
  | GetDiagnosisHistory "string option" "string option"
  | SendChatMessage string
  | GetChatHistory "string option" "string option"
  | GeocodeCity string
  | FindNearbyHospitals string string "string option"
  | GetHospitalDetails string
  | VoiceToText string
  | TextToSpeech string
  | GetVoiceStatus
  | HealthCheck
  | GetProfile
  | UpdateProfile "(string \<times> jsval) list"
  | UploadProfilePicture image_file
  | DeleteChatHistory
  | DeleteDiagnosisHistory
  | SubmitFeedback string string string

text \<open>
  The state the code reads and writes: the two \<^verbatim>\<open>useState\<close> cells of the provider,
  \<^verbatim>\<open>localStorage\<close> and whether the browser refuses further writes to it, the toasts
  shown, the gateway methods the auth context has called with their arguments, and the
  fetches started, each with the timer armed for it, all in order.
\<close>

record world =
  user :: "user option"
  loading :: bool
  localStorage :: storage
  storage_full :: bool
  toasts :: "toast list"
  invoked :: "api_call list"
  sent :: "fetch_call list"

text \<open>
  An asynchronous computation: it runs on a world and returns, throws, or waits for ever.
  In the last case the world is the one it is left waiting in.
\<close>

type_synonym 'a js = "world \<Rightarrow> 'a settled \<times> world"

definition ret :: "'a \<Rightarrow> 'a js" where
  "ret x = (\<lambda>w. (Resolved x, w))"

definition throw :: "thrown \<Rightarrow> 'a js" where
  "throw e = (\<lambda>w. (Rejected e, w))"

definition await :: "'a js \<Rightarrow> ('a \<Rightarrow> 'b js) \<Rightarrow> 'b js" where
  "await m f = (\<lambda>w. case m w of
       (Resolved x, w') \<Rightarrow> f x w'
     | (Rejected e, w') \<Rightarrow> (Rejected e, w')
     | (Pending, w') \<Rightarrow> (Pending, w'))"

definition try_catch :: "'a js \<Rightarrow> (thrown \<Rightarrow> 'a js) \<Rightarrow> 'a js" where
  "try_catch m h = (\<lambda>w. case m w of
       (Resolved x, w') \<Rightarrow> (Resolved x, w')
     | (Rejected e, w') \<Rightarrow> h e w'
     | (Pending, w') \<Rightarrow> (Pending, w'))"

text \<open>The \<^verbatim>\<open>finally\<close> block runs once the body has returned or thrown, not while it waits.\<close>

definition try_finally :: "'a js \<Rightarrow> unit js \<Rightarrow> 'a js" where
  "try_finally m fin = (\<lambda>w. case m w of
       (Pending, w') \<Rightarrow> (Pending, w')
     | (r, w') \<Rightarrow>
         (case fin w' of
            (Resolved _, w'') \<Rightarrow> (r, w'')
          | (Rejected e, w'') \<Rightarrow> (Rejected e, w'')
          | (Pending, w'') \<Rightarrow> (Pending, w'')))"

definition fetch :: "'a server \<Rightarrow> string \<Rightarrow> request_init \<Rightarrow> nat \<Rightarrow> 'a response js" where
  "fetch srv url init timeoutMs = (\<lambda>w.
     (settle (srv url init) timeoutMs,
      w\<lparr>sent := sent w @ [\<lparr>call_url = url, call_init = init, call_timeout = timeoutMs\<rparr>]\<rparr>))"

text \<open>
  \<^verbatim>\<open>response.json()\<close> is awaited after the timer has been cleared: nothing aborts it.
\<close>

definition response_json :: "'a response \<Rightarrow> 'a data js" where
  "response_json r = (\<lambda>w. (json r, w))"

text \<open>\<^verbatim>\<open>data.error\<close>: the member, or a \<^verbatim>\<open>TypeError\<close> when the body was \<^verbatim>\<open>null\<close>.\<close>

definition data_error :: "'a data \<Rightarrow> string option js" where
  "data_error d = (case d of Null \<Rightarrow> throw (TypeError ''error'') | Object e p \<Rightarrow> ret e)"

text \<open>Reading a member of a response the auth context holds as \<^verbatim>\<open>any\<close>.\<close>

definition member :: "string \<Rightarrow> ('a \<Rightarrow> 'b) \<Rightarrow> 'a data \<Rightarrow> 'b js" where
  "member m get d = (case d of Null \<Rightarrow> throw (TypeError m) | Object e p \<Rightarrow> ret (get p))"

section \<open>The request runner\<close>

text \<open>
  The \<^verbatim>\<open>config\<close> object of \<^verbatim>\<open>requestWithTimeout\<close>: the options spread first, then
  \<^verbatim>\<open>credentials: 'include'\<close>, then the headers, where the caller's headers are spread
  last and so override the automatic content type.
\<close>

definition config :: "request_init \<Rightarrow> request_init" where
  "config options = options
     \<lparr>credentials := Some ''include'',
      headers := (if isFormData (body options) then Map.empty
                  else [''Content-Type'' \<mapsto> ''application/json'']) ++ headers options\<rparr>"

text \<open>\<^verbatim>\<open>data.error || fallback\<close>: the member when it is a non-empty string.\<close>

fun or_default :: "string option \<Rightarrow> string \<Rightarrow> string" where
  "or_default None fallback = fallback"
| "or_default (Some s) fallback = (if s = [] then fallback else s)"

definition requestWithTimeout :: "'a server \<Rightarrow> string \<Rightarrow> string \<Rightarrow> request_init \<Rightarrow> nat \<Rightarrow> 'a data js" where
  "requestWithTimeout srv baseUrl endpoint options timeoutMs =
     (let url = baseUrl @ endpoint in
      try_catch
        (await (fetch srv url ((config options)\<lparr>signal := True\<rparr>) timeoutMs) (\<lambda>response.
         await (response_json response) (\<lambda>data.
         if \<not> ok response
         then await (data_error data) (\<lambda>err. throw (Error ''Error'' (or_default err ''Request failed'')))
         else ret data)))
        (\<lambda>error. case error of
           Error n m \<Rightarrow>
             if n = ''AbortError''
             then throw (Error ''Error'' ''The request is taking longer than expected. Please try again.'')
             else throw error
         | NonError \<Rightarrow> throw (Error ''Error'' ''Network error occurred'')))"

definition request :: "'a server \<Rightarrow> string \<Rightarrow> string \<Rightarrow> request_init \<Rightarrow> 'a data js" where
  "request srv baseUrl endpoint options = requestWithTimeout srv baseUrl endpoint options 10000"

section \<open>The gateway\<close>

text \<open>\<^verbatim>\<open>if (symptoms)\<close>: the argument is there and is not the empty string.\<close>

fun truthy :: "string option \<Rightarrow> bool" where
  "truthy None = False"
| "truthy (Some s) = (s \<noteq> [])"

definition diagnoseImage_formData :: "image_file \<Rightarrow> string option \<Rightarrow> (string \<times> form_value) list" where
  "diagnoseImage_formData img symptoms =
     [(''image'', FileEntry img)] @
     (if truthy symptoms then [(''symptoms'', TextEntry (the symptoms))] else [])"

definition diagnoseImage :: "'a server \<Rightarrow> string \<Rightarrow> image_file \<Rightarrow> string option \<Rightarrow> 'a data js" where
  "diagnoseImage srv baseUrl img symptoms =
     (let formData = diagnoseImage_formData img symptoms in
      try_catch
        (await (fetch srv (baseUrl @ ''/api/diagnose-image'')
                  \<lparr>http_method = Some ''POST'', headers = Map.empty, body = FormDataBody formData,
                   credentials = Some ''include'', signal = True\<rparr> 90000) (\<lambda>response.
         await (response_json response) (\<lambda>data.
         if \<not> ok response
         then await (data_error data) (\<lambda>err. throw (Error ''Error'' (or_default err ''Image analysis failed'')))
         else ret data)))
        (\<lambda>error. case error of
           Error n m \<Rightarrow>
             if n = ''AbortError''
             then throw (Error ''Error'' ''Image analysis timeout - please try again'')
             else throw error
         | NonError \<Rightarrow> throw (Error ''Error'' ''Network error occurred'')))"

definition opt_str :: "string option \<Rightarrow> jsval" where
  "opt_str s = (case s of None \<Rightarrow> VUndefined | Some x \<Rightarrow> VStr x)"

definition post :: "body \<Rightarrow> request_init" where
  "post b = no_options\<lparr>http_method := Some ''POST'', body := b\<rparr>"

fun ApiClient :: "'a server \<Rightarrow> string \<Rightarrow> api_call \<Rightarrow> 'a data js" where
  "ApiClient srv baseUrl (Register username email password) =
     request srv baseUrl ''/api/register''
       (post (JSON_stringify [(''username'', VStr username), (''email'', VStr email), (''password'', VStr password)]))"
| "ApiClient srv baseUrl (Login args) =
     (let username = arg 0 args; password = arg 1 args in
      request srv baseUrl ''/api/login''
        (post (JSON_stringify [(''username'', username), (''password'', password)])))"
| "ApiClient srv baseUrl Logout =
     request srv baseUrl ''/api/logout'' (no_options\<lparr>http_method := Some ''POST''\<rparr>)"
| "ApiClient srv baseUrl CheckAuth =
     requestWithTimeout srv baseUrl ''/api/check-auth'' no_options 5000"
| "ApiClient srv baseUrl (ForgotPassword email) =
     request srv baseUrl ''/api/forgot-password'' (post (JSON_stringify [(''email'', VStr email)]))"
| "ApiClient srv baseUrl (ResetPassword token password) =
     request srv baseUrl ''/api/reset-password''
       (post (JSON_stringify [(''token'', VStr token), (''password'', VStr password)]))"
| "ApiClient srv baseUrl (VerifyResetToken token) =
     request srv baseUrl ''/api/verify-reset-token'' (post (JSON_stringify [(''token'', VStr token)]))"
| "ApiClient srv baseUrl (Diagnose symptoms) =
     requestWithTimeout srv baseUrl ''/api/diagnose''
       (post (JSON_stringify [(''symptoms'', VStr symptoms)])) 60000"
| "ApiClient srv baseUrl (DiagnoseImage img symptoms) =
     diagnoseImage srv baseUrl img symptoms"
| "ApiClient srv baseUrl (GetDiagnosisHistory page perPage) =
     requestWithTimeout srv baseUrl
       (''/api/diagnosis-history?page='' @ (case page of None \<Rightarrow> ''1'' | Some n \<Rightarrow> n)
          @ ''&per_page='' @ (case perPage of None \<Rightarrow> ''10'' | Some n \<Rightarrow> n))
       no_options 30000"
| "ApiClient srv baseUrl (SendChatMessage message) =
     requestWithTimeout srv baseUrl ''/api/chat''
       (post (JSON_stringify [(''message'', VStr message)])) 30000"
| "ApiClient srv baseUrl (GetChatHistory page perPage) =
     requestWithTimeout srv baseUrl
       (''/api/chat-history?page='' @ (case page of None \<Rightarrow> ''1'' | Some n \<Rightarrow> n)
          @ ''&per_page='' @ (case perPage of None \<Rightarrow> ''20'' | Some n \<Rightarrow> n))
       no_options 30000"
| "ApiClient srv baseUrl (GeocodeCity city) =
     request srv baseUrl ''/api/geocode-city'' (post (JSON_stringify [(''city'', VStr city)]))"
| "ApiClient srv baseUrl (FindNearbyHospitals latitude longitude radius) =
     request srv baseUrl ''/api/nearby-hospitals''
       (post (JSON_stringify [(''latitude'', VNum latitude), (''longitude'', VNum longitude),
          (''radius'', VNum (case radius of None \<Rightarrow> ''5000'' | Some r \<Rightarrow> r))]))"
| "ApiClient srv baseUrl (GetHospitalDetails placeId) =
     request srv baseUrl (''/api/hospital-details/'' @ placeId) no_options"
| "ApiClient srv baseUrl (VoiceToText text) =
     request srv baseUrl ''/api/voice-to-text'' (post (JSON_stringify [(''text'', VStr text)]))"
| "ApiClient srv baseUrl (TextToSpeech text) =
     request srv baseUrl ''/api/text-to-speech'' (post (JSON_stringify [(''text'', VStr text)]))"
| "ApiClient srv baseUrl GetVoiceStatus = request srv baseUrl ''/api/voice/status'' no_options"
| "ApiClient srv baseUrl HealthCheck = request srv baseUrl ''/api/health'' no_options"
| "ApiClient srv baseUrl GetProfile = request srv baseUrl ''/api/profile'' no_options"
| "ApiClient srv baseUrl (UpdateProfile members) =
     request srv baseUrl ''/api/profile''
       (no_options\<lparr>http_method := Some ''PUT'', body := JSON_stringify members\<rparr>)"
| "ApiClient srv baseUrl (UploadProfilePicture file) =
     requestWithTimeout srv baseUrl ''/api/profile/picture''
       (post (FormDataBody [(''image'', FileEntry file)])) 30000"
| "ApiClient srv baseUrl DeleteChatHistory =
     request srv baseUrl ''/api/settings/delete-chat-history'' (no_options\<lparr>http_method := Some ''DELETE''\<rparr>)"
| "ApiClient srv baseUrl DeleteDiagnosisHistory =
     request srv baseUrl ''/api/settings/delete-diagnosis-history'' (no_options\<lparr>http_method := Some ''DELETE''\<rparr>)"
| "ApiClient srv baseUrl (SubmitFeedback name email message) =
     request srv baseUrl ''/api/feedback''
       (post (JSON_stringify [(''name'', VStr name), (''email'', VStr email), (''message'', VStr message)]))"

declare ApiClient.simps [simp del]

text \<open>The fetches a computation starts, and the timers it arms for them.\<close>

definition started :: "'a js \<Rightarrow> world \<Rightarrow> fetch_call list" where
  "started m w = drop (length (sent w)) (sent (snd (m w)))"


section \<open>The auth context\<close>

text \<open>
  What the auth context reads from a resolved \<^verbatim>\<open>checkAuth\<close>, \<^verbatim>\<open>login\<close> or \<^verbatim>\<open>register\<close>
  response: whether \<^verbatim>\<open>response.authenticated\<close> is truthy, and \<^verbatim>\<open>response.user\<close>, which
  is \<open>None\<close> when the response carries no user.
\<close>

datatype auth_reply = AuthReply (authenticated: bool) (reply_user: "user option")

definition STORAGE_KEY :: string where
  "STORAGE_KEY = ''medmate_remember_me''"

text \<open>The three uses of \<^verbatim>\<open>localStorage\<close>.\<close>

definition getItem :: "string \<Rightarrow> stored option js" where
  "getItem k = (\<lambda>w. case localStorage w of
       Denied \<Rightarrow> (Rejected SecurityError, w)
     | Available items \<Rightarrow> (Resolved (items k), w))"

definition setItem :: "string \<Rightarrow> stored \<Rightarrow> unit js" where
  "setItem k v = (\<lambda>w. case localStorage w of
       Denied \<Rightarrow> (Rejected SecurityError, w)
     | Available items \<Rightarrow>
         if storage_full w then (Rejected QuotaExceededError, w)
         else (Resolved (), w\<lparr>localStorage := Available (items(k \<mapsto> v))\<rparr>))"

definition removeItem :: "string \<Rightarrow> unit js" where
  "removeItem k = (\<lambda>w. case localStorage w of
       Denied \<Rightarrow> (Rejected SecurityError, w)
     | Available items \<Rightarrow> (Resolved (), w\<lparr>localStorage := Available (items(k := None))\<rparr>))"

definition setUser :: "user option \<Rightarrow> unit js" where
  "setUser u = (\<lambda>w. (Resolved (), w\<lparr>user := u\<rparr>))"

definition setLoading :: "bool \<Rightarrow> unit js" where
  "setLoading b = (\<lambda>w. (Resolved (), w\<lparr>loading := b\<rparr>))"

definition toast_success :: "string \<Rightarrow> unit js" where
  "toast_success s = (\<lambda>w. (Resolved (), w\<lparr>toasts := toasts w @ [Success s]\<rparr>))"

definition toast_error :: "string \<Rightarrow> unit js" where
  "toast_error s = (\<lambda>w. (Resolved (), w\<lparr>toasts := toasts w @ [Failure s]\<rparr>))"

text \<open>
  \<^verbatim>\<open>JSON.parse\<close> of a stored string: \<^verbatim>\<open>null\<close>, the two members, or a \<^verbatim>\<open>SyntaxError\<close>.
\<close>

definition JSON_parse :: "stored \<Rightarrow> (string option \<times> string option) option js" where
  "JSON_parse text = (case text of
       Credentials u p \<Rightarrow> ret (Some (u, p))
     | NullText \<Rightarrow> ret None
     | EmptyText \<Rightarrow> throw (Error ''SyntaxError'' ''Unexpected end of JSON input'')
     | NotJson \<Rightarrow> throw (Error ''SyntaxError'' ''Unexpected token''))"

text \<open>
  The exported \<^verbatim>\<open>api\<close> object: a call of one of its methods, noted with its arguments
  before the method runs.
\<close>

definition api :: "'a server \<Rightarrow> string \<Rightarrow> api_call \<Rightarrow> 'a data js" where
  "api srv baseUrl c = (\<lambda>w. ApiClient srv baseUrl c (w\<lparr>invoked := invoked w @ [c]\<rparr>))"

definition tryAutoLogin :: "auth_reply server \<Rightarrow> string \<Rightarrow> unit js" where
  "tryAutoLogin srv baseUrl =
     try_catch
       (await (getItem STORAGE_KEY) (\<lambda>stored.
        case stored of
          None \<Rightarrow> ret ()
        | Some text \<Rightarrow>
            if text = EmptyText then ret ()
            else await (JSON_parse text) (\<lambda>credentials.
              case credentials of
                None \<Rightarrow> throw (TypeError ''username'')
              | Some (username, password) \<Rightarrow>
                  if \<not> truthy username \<or> \<not> truthy password then removeItem STORAGE_KEY
                  else await (api srv baseUrl (Login [opt_str username, opt_str password, VBool True]))
                         (\<lambda>response.
                       await (member ''user'' reply_user response) (\<lambda>u.
                       setUser u)))))
       (\<lambda>error. removeItem STORAGE_KEY)"

definition checkAuth :: "auth_reply server \<Rightarrow> string \<Rightarrow> unit js" where
  "checkAuth srv baseUrl =
     try_finally
       (try_catch
          (await (api srv baseUrl CheckAuth) (\<lambda>response.
           await (member ''authenticated'' authenticated response) (\<lambda>is_authenticated.
           if is_authenticated
           then await (member ''user'' reply_user response) (\<lambda>u. setUser u)
           else await (setUser None) (\<lambda>_. tryAutoLogin srv baseUrl))))
          (\<lambda>error. await (setUser None) (\<lambda>_. tryAutoLogin srv baseUrl)))
       (setLoading False)"


definition register :: "auth_reply server \<Rightarrow> string \<Rightarrow> string \<Rightarrow> string \<Rightarrow> string \<Rightarrow> unit js" where
  "register srv baseUrl username email password =
     try_catch
       (await (api srv baseUrl (Register username email password)) (\<lambda>response.
        await (member ''user'' reply_user response) (\<lambda>u.
        await (setUser u) (\<lambda>_.
        toast_success ''Account created successfully!''))))
       (\<lambda>error.
        await (toast_error (case error of Error n m \<Rightarrow> m | NonError \<Rightarrow> ''Registration failed'')) (\<lambda>_.
        throw error))"

definition logout :: "auth_reply server \<Rightarrow> string \<Rightarrow> unit js" where
  "logout srv baseUrl =
     try_catch
       (await (api srv baseUrl Logout) (\<lambda>_.
        await (setUser None) (\<lambda>_.
        await (removeItem STORAGE_KEY) (\<lambda>_.
        toast_success ''Logged out successfully''))))
       (\<lambda>error. toast_error ''Logout failed'')"

text \<open>The provider as it mounts: nobody signed in, loading.\<close>

definition mount :: "storage \<Rightarrow> world" where
  "mount storage = \<lparr>user = None, loading = True, localStorage = storage, storage_full = False,
     toasts = [], invoked = [], sent = []\<rparr>"

text \<open>The literal each method writes after \<^verbatim>\<open>data.error ||\<close>.\<close>

fun default_message :: "api_call \<Rightarrow> string" where
  "default_message (DiagnoseImage _ _) = ''Image analysis failed''"
| "default_message _ = ''Request failed''"

section \<open>Sample inputs\<close>

definition alice :: user where
  "alice = \<lparr>uid = 7, uname = ''alice'', uemail = ''alice@example.org'', profile_picture = None,
     profile_picture_url = None, created_at = None\<rparr>"

text \<open>A far end that gives every request the same answer after \<open>delay\<close> milliseconds.\<close>

definition answering :: "nat \<Rightarrow> nat \<Rightarrow> 'a data settled \<Rightarrow> 'a server" where
  "answering delay code parsed = (\<lambda>url init. Responds delay \<lparr>status = code, json = parsed\<rparr>)"

definition silent :: "'a server" where
  "silent = (\<lambda>url init. Stalls)"

text \<open>No session any more; the login endpoint accepts the credentials and answers with alice.\<close>

definition session_expired :: "auth_reply server" where
  "session_expired = (\<lambda>url init.
     if url = ''/api/check-auth''
     then Responds 40 \<lparr>status = 200, json = Resolved (Object None (AuthReply False None))\<rparr>
     else if url = ''/api/login''
     then Responds 120 \<lparr>status = 200, json = Resolved (Object None (AuthReply False (Some alice)))\<rparr>
     else Responds 15 \<lparr>status = 404, json = Resolved (Object (Some ''Not found'') (AuthReply False None))\<rparr>)"

text \<open>No session any more, and the login endpoint turns the credentials down.\<close>

definition password_changed :: "auth_reply server" where
  "password_changed = (\<lambda>url init.
     if url = ''/api/check-auth''
     then Responds 40 \<lparr>status = 200, json = Resolved (Object None (AuthReply False None))\<rparr>
     else Responds 120 \<lparr>status = 401,
            json = Resolved (Object (Some ''Invalid credentials'') (AuthReply False None))\<rparr>)"

text \<open>No session any more; the login endpoint answers 200 with the body \<^verbatim>\<open>null\<close>.\<close>

definition login_says_null :: "auth_reply server" where
  "login_says_null = (\<lambda>url init.
     if url = ''/api/check-auth''
     then Responds 40 \<lparr>status = 200, json = Resolved (Object None (AuthReply False None))\<rparr>
     else Responds 120 \<lparr>status = 200, json = Resolved Null\<rparr>)"

text \<open>No session any more; the login endpoint answers 200 with a message and no user.\<close>

definition login_without_user :: "auth_reply server" where
  "login_without_user = (\<lambda>url init.
     if url = ''/api/check-auth''
     then Responds 40 \<lparr>status = 200, json = Resolved (Object None (AuthReply False None))\<rparr>
     else Responds 120 \<lparr>status = 200, json = Resolved (Object None (AuthReply False None))\<rparr>)"


definition signed_in :: world where
  "signed_in = \<lparr>user = Some alice, loading = False,
     localStorage = Available [STORAGE_KEY \<mapsto> Credentials (Some ''alice'') (Some ''secret'')],
     storage_full = False, toasts = [], invoked = [], sent = []\<rparr>"

text \<open>Nobody signed in yet, with credentials remembered from an earlier visit.\<close>

definition remembered :: world where
  "remembered = mount (Available [STORAGE_KEY \<mapsto> Credentials (Some ''alice'') (Some ''secret'')])"

text \<open>The same, but the stored record has an empty username.\<close>

definition blank_username :: world where
  "blank_username = mount (Available [STORAGE_KEY \<mapsto> Credentials (Some []) (Some ''secret'')])"

text \<open>The stored record has no username member at all.\<close>

definition missing_username :: world where
  "missing_username = mount (Available [STORAGE_KEY \<mapsto> Credentials None (Some ''secret'')])"

text \<open>A far end that fails every request with status 500 and an empty \<^verbatim>\<open>error\<close> member.\<close>

definition empty_error :: "auth_reply server" where
  "empty_error = answering 25 500 (Resolved (Object (Some []) (AuthReply False None)))"

text \<open>A far end that fails every request with status 500 and the body \<^verbatim>\<open>null\<close>.\<close>

definition null_error :: "auth_reply server" where
  "null_error = answering 25 500 (Resolved Null)"

definition crashed :: "auth_reply server" where
  "crashed = answering 30 500 (Resolved (Object (Some ''Internal server error'') (AuthReply False None)))"

text \<open>A far end that needs 61 seconds for every answer.\<close>

definition swamped :: "auth_reply server" where
  "swamped = answering 61000 200 (Resolved (Object None (AuthReply False None)))"

definition rash_photo :: image_file where
  "rash_photo = File ''rash.jpg'' [255, 216, 255]"

section \<open>Running the model\<close>

lemmas js_defs = Let_def ret_def throw_def await_def try_catch_def try_finally_def case_prod_beta
  fetch_def response_json_def data_error_def

lemmas run_defs = Let_def ret_def throw_def await_def try_catch_def try_finally_def case_prod_beta

lemmas ctx_defs = getItem_def setItem_def removeItem_def setUser_def setLoading_def
  toast_success_def toast_error_def

subsection \<open>What a call leaves behind\<close>

lemma snd_requestWithTimeout:
  "snd (requestWithTimeout srv b e opts t w) =
     w\<lparr>sent := sent w @ [\<lparr>call_url = b @ e, call_init = (config opts)\<lparr>signal := True\<rparr>, call_timeout = t\<rparr>]\<rparr>"
  by (simp add: requestWithTimeout_def js_defs
        split: settled.splits thrown.splits data.splits)

lemma snd_request:
  "snd (request srv b e opts w) =
     w\<lparr>sent := sent w @ [\<lparr>call_url = b @ e, call_init = (config opts)\<lparr>signal := True\<rparr>, call_timeout = 10000\<rparr>]\<rparr>"
  by (simp add: request_def snd_requestWithTimeout)

lemma started_requestWithTimeout:
  "started (requestWithTimeout srv b e opts t) w =
     [\<lparr>call_url = b @ e, call_init = (config opts)\<lparr>signal := True\<rparr>, call_timeout = t\<rparr>]"
  by (simp add: started_def snd_requestWithTimeout)

lemma started_request:
  "started (request srv b e opts) w =
     [\<lparr>call_url = b @ e, call_init = (config opts)\<lparr>signal := True\<rparr>, call_timeout = 10000\<rparr>]"
  by (simp add: request_def started_def snd_requestWithTimeout)

lemma snd_diagnoseImage:
  "snd (diagnoseImage srv b img symptoms w) =
     w\<lparr>sent := sent w @ [\<lparr>call_url = b @ ''/api/diagnose-image'',
        call_init = \<lparr>http_method = Some ''POST'', headers = Map.empty,
          body = FormDataBody (diagnoseImage_formData img symptoms),
          credentials = Some ''include'', signal = True\<rparr>, call_timeout = 90000\<rparr>]\<rparr>"
  by (simp add: diagnoseImage_def js_defs
        split: settled.splits thrown.splits data.splits)

lemma started_diagnoseImage:
  "started (diagnoseImage srv b img symptoms) w =
     [\<lparr>call_url = b @ ''/api/diagnose-image'',
        call_init = \<lparr>http_method = Some ''POST'', headers = Map.empty,
          body = FormDataBody (diagnoseImage_formData img symptoms),
          credentials = Some ''include'', signal = True\<rparr>, call_timeout = 90000\<rparr>]"
  by (simp add: started_def snd_diagnoseImage)

lemmas started_simps = started_requestWithTimeout started_request started_diagnoseImage

text \<open>The fetch a gateway call starts does not depend on the world it runs in.\<close>

lemma started_ApiClient_world: "started (ApiClient srv b c) w = started (ApiClient srv b c) w'"
  by (cases c) (simp_all add: ApiClient.simps Let_def started_simps)

lemma snd_ApiClient: "snd (ApiClient srv b c w) = w\<lparr>sent := sent w @ started (ApiClient srv b c) w\<rparr>"
  by (cases c) (simp_all add: ApiClient.simps Let_def started_simps snd_request snd_requestWithTimeout snd_diagnoseImage)

lemma snd_api:
  "snd (api srv b c w) = w\<lparr>invoked := invoked w @ [c], sent := sent w @ started (ApiClient srv b c) w\<rparr>"
  by (simp add: api_def snd_ApiClient
        started_ApiClient_world [of srv b c "w\<lparr>invoked := invoked w @ [c]\<rparr>" w])

lemma login_request:
  "started (ApiClient srv b (Login [VStr u, VStr p, r])) w =
     [\<lparr>call_url = b @ ''/api/login'',
       call_init = \<lparr>http_method = Some ''POST'', headers = [''Content-Type'' \<mapsto> ''application/json''],
         body = JsonBody [(''username'', VStr u), (''password'', VStr p)],
         credentials = Some ''include'', signal = True\<rparr>,
       call_timeout = 10000\<rparr>]"
  by (simp add: ApiClient.simps started_simps Let_def arg_def JSON_stringify_def post_def no_options_def config_def)

subsection \<open>What a call settles to\<close>

lemma fst_requestWithTimeout:
  "fst (requestWithTimeout srv b e opts t w) =
     (case settle (srv (b @ e) ((config opts)\<lparr>signal := True\<rparr>)) t of
        Pending \<Rightarrow> Pending
      | Rejected NonError \<Rightarrow> Rejected (Error ''Error'' ''Network error occurred'')
      | Rejected (Error n m) \<Rightarrow>
          if n = ''AbortError''
          then Rejected (Error ''Error'' ''The request is taking longer than expected. Please try again.'')
          else Rejected (Error n m)
      | Resolved r \<Rightarrow>
          (case json r of
             Pending \<Rightarrow> Pending
           | Rejected NonError \<Rightarrow> Rejected (Error ''Error'' ''Network error occurred'')
           | Rejected (Error n m) \<Rightarrow>
               if n = ''AbortError''
               then Rejected (Error ''Error'' ''The request is taking longer than expected. Please try again.'')
               else Rejected (Error n m)
           | Resolved Null \<Rightarrow> if ok r then Resolved Null else Rejected (TypeError ''error'')
           | Resolved (Object ef p) \<Rightarrow>
               if ok r then Resolved (Object ef p)
               else Rejected (Error ''Error'' (or_default ef ''Request failed''))))"
  by (simp add: requestWithTimeout_def js_defs TypeError_def
        split: settled.splits thrown.splits data.splits)

lemma fst_diagnoseImage:
  "fst (diagnoseImage srv b img symptoms w) =
     (case settle (srv (b @ ''/api/diagnose-image'')
             \<lparr>http_method = Some ''POST'', headers = Map.empty,
              body = FormDataBody (diagnoseImage_formData img symptoms),
              credentials = Some ''include'', signal = True\<rparr>) 90000 of
        Pending \<Rightarrow> Pending
      | Rejected NonError \<Rightarrow> Rejected (Error ''Error'' ''Network error occurred'')
      | Rejected (Error n m) \<Rightarrow>
          if n = ''AbortError''
          then Rejected (Error ''Error'' ''Image analysis timeout - please try again'')
          else Rejected (Error n m)
      | Resolved r \<Rightarrow>
          (case json r of
             Pending \<Rightarrow> Pending
           | Rejected NonError \<Rightarrow> Rejected (Error ''Error'' ''Network error occurred'')
           | Rejected (Error n m) \<Rightarrow>
               if n = ''AbortError''
               then Rejected (Error ''Error'' ''Image analysis timeout - please try again'')
               else Rejected (Error n m)
           | Resolved Null \<Rightarrow> if ok r then Resolved Null else Rejected (TypeError ''error'')
           | Resolved (Object ef p) \<Rightarrow>
               if ok r then Resolved (Object ef p)
               else Rejected (Error ''Error'' (or_default ef ''Image analysis failed''))))"
  by (simp add: diagnoseImage_def js_defs TypeError_def
        split: settled.splits thrown.splits data.splits)

lemma fst_request:
  "fst (request srv b e opts w) = fst (requestWithTimeout srv b e opts 10000 w)"
  by (simp add: request_def)

lemma settle_timed_out: "timed_out bh t \<Longrightarrow> settle bh t = Rejected AbortError"
  by (cases bh) simp_all

text \<open>The outcome of a gateway call is decided by the far end alone.\<close>

lemma fst_ApiClient_world: "fst (ApiClient srv b c w) = fst (ApiClient srv b c w')"
  by (cases c) (simp_all add: ApiClient.simps Let_def fst_request fst_requestWithTimeout fst_diagnoseImage)

lemma fst_api: "fst (api srv b c w) = fst (ApiClient srv b c w)"
  by (simp add: api_def fst_ApiClient_world [of srv b c "w\<lparr>invoked := invoked w @ [c]\<rparr>" w])


text \<open>An aborted image upload has a message of its own, which is not the generic one either.\<close>

lemma diagnoseImage_timed_out:
  assumes "started (diagnoseImage srv b img symptoms) w = [k]"
    and "timed_out (srv (call_url k) (call_init k)) (call_timeout k)"
  shows "fst (diagnoseImage srv b img symptoms w) =
           Rejected (Error ''Error'' ''Image analysis timeout - please try again'')"
  using assms by (auto simp add: started_simps fst_diagnoseImage settle_timed_out AbortError_def)

subsection \<open>The request configuration\<close>

lemmas eval_defs = ApiClient.simps fst_request fst_requestWithTimeout ok_def arg_def JSON_stringify_def post_def
  no_options_def config_def

lemma config_credentials: "credentials (config opts) = Some ''include''"
  by (simp add: config_def)

lemma config_body: "body (config opts) = body opts"
  by (simp add: config_def)

lemma config_content_type:
  "headers opts ''Content-Type'' = None \<Longrightarrow>
   headers (config opts) ''Content-Type'' = (if isFormData (body opts) then None else Some ''application/json'')"
  by (simp add: config_def map_add_def)

lemma not_FormData_stringify: "\<not> isFormData (JSON_stringify members)"
  by (simp add: JSON_stringify_def)

subsection \<open>The auth context, step by step\<close>

lemmas auth_defs = member_def JSON_parse_def

lemma tryAutoLogin_attempt:
  assumes "localStorage w = Available m"
    and "m STORAGE_KEY = Some (Credentials (Some u) (Some p))" and "u \<noteq> []" and "p \<noteq> []"
  shows "tryAutoLogin srv b w =
     (case fst (ApiClient srv b (Login [VStr u, VStr p, VBool True]) w) of
        Pending \<Rightarrow> (Pending, snd (api srv b (Login [VStr u, VStr p, VBool True]) w))
      | Rejected e \<Rightarrow>
          (Resolved (), (snd (api srv b (Login [VStr u, VStr p, VBool True]) w))
             \<lparr>localStorage := Available (m(STORAGE_KEY := None))\<rparr>)
      | Resolved Null \<Rightarrow>
          (Resolved (), (snd (api srv b (Login [VStr u, VStr p, VBool True]) w))
             \<lparr>localStorage := Available (m(STORAGE_KEY := None))\<rparr>)
      | Resolved (Object ef rep) \<Rightarrow>
          (Resolved (), (snd (api srv b (Login [VStr u, VStr p, VBool True]) w))
             \<lparr>user := reply_user rep\<rparr>))"
proof -
  let ?L = "Login [VStr u, VStr p, VBool True]"
  have run: "api srv b ?L w = (fst (ApiClient srv b ?L w), snd (api srv b ?L w))"
    by (simp add: prod_eq_iff fst_api)
  have ls: "localStorage (snd (api srv b ?L w)) = Available m"
    using assms(1) by (simp add: snd_api)
  show ?thesis
    using assms ls
    by (cases "fst (ApiClient srv b ?L w)")
       (auto simp add: tryAutoLogin_def run_defs ctx_defs auth_defs opt_str_def fst_api split: data.splits)
qed





lemma checkAuth_run:
  "checkAuth srv b w =
    (let w0 = snd (api srv b CheckAuth w);
         r1 = tryAutoLogin srv b (w0\<lparr>user := None\<rparr>);
         r2 = tryAutoLogin srv b ((snd r1)\<lparr>user := None\<rparr>);
         finish = (\<lambda>r. case fst r of
                      Pending \<Rightarrow> (Pending, snd r)
                    | Rejected e \<Rightarrow> (Rejected e, (snd r)\<lparr>loading := False\<rparr>)
                    | Resolved x \<Rightarrow> (Resolved (), (snd r)\<lparr>loading := False\<rparr>))
     in case fst (ApiClient srv b CheckAuth w) of
          Pending \<Rightarrow> (Pending, w0)
        | Rejected e \<Rightarrow> finish r1
        | Resolved Null \<Rightarrow> finish r1
        | Resolved (Object ef rep) \<Rightarrow>
            if authenticated rep then (Resolved (), w0\<lparr>user := reply_user rep, loading := False\<rparr>)
            else (case fst r1 of Rejected e \<Rightarrow> finish r2 | _ \<Rightarrow> finish r1))"
  by (simp add: checkAuth_def run_defs setUser_def setLoading_def member_def fst_api split: settled.splits data.splits)

lemmas startup_eval = checkAuth_run tryAutoLogin_def run_defs ctx_defs auth_defs snd_api fst_api
  started_def opt_str_def mount_def eval_defs

section \<open>Timeout budgets\<close>

text \<open>
  C5. The timer armed for a call depends only on the method: 5000 ms for \<^verbatim>\<open>checkAuth\<close>;
  10000 ms for \<^verbatim>\<open>login\<close>, \<^verbatim>\<open>register\<close> and every other method that goes through
  \<^verbatim>\<open>request\<close>; 60000 ms for \<^verbatim>\<open>diagnose\<close>; 90000 ms for \<^verbatim>\<open>diagnoseImage\<close>; 30000 ms for
  \<^verbatim>\<open>sendChatMessage\<close>, \<^verbatim>\<open>getChatHistory\<close> and \<^verbatim>\<open>getDiagnosisHistory\<close>. Each call starts
  exactly one fetch.
\<close>

theorem timeout_budgets:
  "map call_timeout (started (ApiClient srv b CheckAuth) w) = [5000]
   \<and> map call_timeout (started (ApiClient srv b (Login args)) w) = [10000]
   \<and> map call_timeout (started (ApiClient srv b (Register username email password)) w) = [10000]
   \<and> map call_timeout (started (ApiClient srv b Logout) w) = [10000]
   \<and> map call_timeout (started (ApiClient srv b (ForgotPassword email)) w) = [10000]
   \<and> map call_timeout (started (ApiClient srv b (ResetPassword token password)) w) = [10000]
   \<and> map call_timeout (started (ApiClient srv b (VerifyResetToken token)) w) = [10000]
   \<and> map call_timeout (started (ApiClient srv b (GeocodeCity city)) w) = [10000]
   \<and> map call_timeout (started (ApiClient srv b (FindNearbyHospitals latitude longitude radius)) w) = [10000]
   \<and> map call_timeout (started (ApiClient srv b (GetHospitalDetails placeId)) w) = [10000]
   \<and> map call_timeout (started (ApiClient srv b (VoiceToText txt)) w) = [10000]
   \<and> map call_timeout (started (ApiClient srv b (TextToSpeech txt)) w) = [10000]
   \<and> map call_timeout (started (ApiClient srv b GetVoiceStatus) w) = [10000]
   \<and> map call_timeout (started (ApiClient srv b HealthCheck) w) = [10000]
   \<and> map call_timeout (started (ApiClient srv b GetProfile) w) = [10000]
   \<and> map call_timeout (started (ApiClient srv b (UpdateProfile members)) w) = [10000]
   \<and> map call_timeout (started (ApiClient srv b DeleteChatHistory) w) = [10000]
   \<and> map call_timeout (started (ApiClient srv b DeleteDiagnosisHistory) w) = [10000]
   \<and> map call_timeout (started (ApiClient srv b (SubmitFeedback sender email message)) w) = [10000]
   \<and> map call_timeout (started (ApiClient srv b (Diagnose symptoms)) w) = [60000]
   \<and> map call_timeout (started (ApiClient srv b (DiagnoseImage img optSymptoms)) w) = [90000]
   \<and> map call_timeout (started (ApiClient srv b (SendChatMessage message)) w) = [30000]
   \<and> map call_timeout (started (ApiClient srv b (GetChatHistory page perPage)) w) = [30000]
   \<and> map call_timeout (started (ApiClient srv b (GetDiagnosisHistory page perPage)) w) = [30000]"
  by (simp add: ApiClient.simps Let_def started_simps)

section \<open>Credentials and content type\<close>

text \<open>
  C7. Every fetch a gateway method starts has credentials mode \<^verbatim>\<open>include\<close>, and carries the
  header \<^verbatim>\<open>Content-Type: application/json\<close> exactly when its body is not a \<^verbatim>\<open>FormData\<close>;
  with a \<^verbatim>\<open>FormData\<close> body it carries no content type at all. The same holds of the
  request runner for any options whose header overrides leave the content type alone.
\<close>

theorem credentials_and_content_type:
  "(\<forall>k \<in> set (started (ApiClient srv b c) w).
      credentials (call_init k) = Some ''include''
      \<and> (headers (call_init k) ''Content-Type'' = Some ''application/json'' \<longleftrightarrow> \<not> isFormData (body (call_init k)))
      \<and> (isFormData (body (call_init k)) \<longrightarrow> headers (call_init k) ''Content-Type'' = None))
   \<and> (\<forall>k \<in> set (started (requestWithTimeout srv b e opts t) w).
      credentials (call_init k) = Some ''include''
      \<and> body (call_init k) = body opts
      \<and> (headers opts ''Content-Type'' = None \<longrightarrow>
           (headers (call_init k) ''Content-Type'' = Some ''application/json'' \<longleftrightarrow> \<not> isFormData (body opts))
           \<and> (isFormData (body opts) \<longrightarrow> headers (call_init k) ''Content-Type'' = None)))"
proof (intro conjI)
  show "\<forall>k \<in> set (started (ApiClient srv b c) w).
      credentials (call_init k) = Some ''include''
      \<and> (headers (call_init k) ''Content-Type'' = Some ''application/json'' \<longleftrightarrow> \<not> isFormData (body (call_init k)))
      \<and> (isFormData (body (call_init k)) \<longrightarrow> headers (call_init k) ''Content-Type'' = None)"
    by (cases c)
       (simp_all add: ApiClient.simps Let_def started_simps config_def post_def no_options_def not_FormData_stringify)
next
  show "\<forall>k \<in> set (started (requestWithTimeout srv b e opts t) w).
      credentials (call_init k) = Some ''include''
      \<and> body (call_init k) = body opts
      \<and> (headers opts ''Content-Type'' = None \<longrightarrow>
           (headers (call_init k) ''Content-Type'' = Some ''application/json'' \<longleftrightarrow> \<not> isFormData (body opts))
           \<and> (isFormData (body opts) \<longrightarrow> headers (call_init k) ''Content-Type'' = None))"
    by (simp add: started_simps config_credentials config_body config_content_type)
qed

theorem credentials_and_content_type_witness:
  "started (ApiClient (silent :: unit server) [] (UploadProfilePicture (File ''me.png'' [137, 80])))
      (mount (Available Map.empty))
     = [\<lparr>call_url = ''/api/profile/picture'',
         call_init = \<lparr>http_method = Some ''POST'', headers = Map.empty,
           body = FormDataBody [(''image'', FileEntry (File ''me.png'' [137, 80]))],
           credentials = Some ''include'', signal = True\<rparr>,
         call_timeout = 30000\<rparr>]
   \<and> map (\<lambda>k. (credentials (call_init k), headers (call_init k) ''Content-Type''))
        (started (requestWithTimeout (silent :: unit server) [] ''/api/check-auth'' no_options 5000)
           (mount (Available Map.empty)))
     = [(Some ''include'', Some ''application/json'')]"
  using credentials_and_content_type [of "silent :: unit server" "[]"
      "UploadProfilePicture (File ''me.png'' [137, 80])" "mount (Available Map.empty)"
      "''/api/check-auth''" no_options 5000]
  by (simp add: ApiClient.simps started_simps config_def post_def no_options_def)

section \<open>Timeouts are classified as timeouts\<close>



section \<open>Error responses\<close>

text \<open>
  C3, as amended. When the far end answers a gateway call in time with a status outside
  200..299, the call never resolves, and it rejects once the body has been read. When the
  body parses to a JSON object, the message is the object's \<^verbatim>\<open>error\<close> member if that is a
  non-empty string, and the method's fixed default when the member is absent or empty.
  When the body parses to \<^verbatim>\<open>null\<close>, the call rejects with the \<^verbatim>\<open>TypeError\<close> of reading the
  member.
\<close>

theorem non_2xx_rejects:
  assumes "started (ApiClient srv b c) w = [k]"
    and "srv (call_url k) (call_init k) = Responds d r" and "d < call_timeout k" and "\<not> ok r"
  shows "(\<forall>dat. fst (ApiClient srv b c w) \<noteq> Resolved dat)
    \<and> (json r \<noteq> Pending \<longrightarrow> (\<exists>err. fst (ApiClient srv b c w) = Rejected err))
    \<and> (\<forall>ef p. json r = Resolved (Object ef p) \<longrightarrow>
          fst (ApiClient srv b c w) = Rejected (Error ''Error''
            (case ef of
               None \<Rightarrow> default_message c
             | Some s \<Rightarrow> if s \<noteq> [] then s else default_message c)))
    \<and> (json r = Resolved Null \<longrightarrow> fst (ApiClient srv b c w) = Rejected (TypeError ''error''))"
proof (intro conjI allI impI)
  fix dat show "fst (ApiClient srv b c w) \<noteq> Resolved dat"
    using assms
    by (cases c)
       (auto simp add: ApiClient.simps Let_def started_simps fst_request fst_requestWithTimeout fst_diagnoseImage
          split: settled.splits thrown.splits data.splits)
next
  assume "json r \<noteq> Pending"
  with assms show "\<exists>err. fst (ApiClient srv b c w) = Rejected err"
    by (cases c)
       (auto simp add: ApiClient.simps Let_def started_simps fst_request fst_requestWithTimeout fst_diagnoseImage
          split: settled.splits thrown.splits data.splits)
next
  fix ef p assume j: "json r = Resolved (Object ef p)"
  have od: "\<And>fb. or_default ef fb = (case ef of None \<Rightarrow> fb | Some s \<Rightarrow> if s \<noteq> [] then s else fb)"
    by (cases ef) simp_all
  show "fst (ApiClient srv b c w) = Rejected (Error ''Error''
            (case ef of
               None \<Rightarrow> default_message c
             | Some s \<Rightarrow> if s \<noteq> [] then s else default_message c))"
    using assms j
    by (cases c)
       (auto simp add: ApiClient.simps Let_def started_simps fst_request fst_requestWithTimeout fst_diagnoseImage od
          split: option.splits)
next
  assume "json r = Resolved Null"
  with assms show "fst (ApiClient srv b c w) = Rejected (TypeError ''error'')"
    by (cases c)
       (auto simp add: ApiClient.simps Let_def started_simps fst_request fst_requestWithTimeout fst_diagnoseImage)
qed

theorem non_2xx_rejects_witness:
  "started (ApiClient password_changed [] (Login [VStr ''alice'', VStr ''secret''])) (mount (Available Map.empty))
     = [\<lparr>call_url = ''/api/login'',
         call_init = \<lparr>http_method = Some ''POST'', headers = [''Content-Type'' \<mapsto> ''application/json''],
           body = JsonBody [(''username'', VStr ''alice''), (''password'', VStr ''secret'')],
           credentials = Some ''include'', signal = True\<rparr>,
         call_timeout = 10000\<rparr>]
   \<and> fst (ApiClient password_changed [] (Login [VStr ''alice'', VStr ''secret'']) (mount (Available Map.empty)))
     = Rejected (Error ''Error'' ''Invalid credentials'')"
proof -
  let ?k = "\<lparr>call_url = ''/api/login'',
         call_init = \<lparr>http_method = Some ''POST'', headers = [''Content-Type'' \<mapsto> ''application/json''],
           body = JsonBody [(''username'', VStr ''alice''), (''password'', VStr ''secret'')],
           credentials = Some ''include'', signal = True\<rparr>,
         call_timeout = 10000\<rparr>"
  let ?r = "\<lparr>status = 401, json = Resolved (Object (Some ''Invalid credentials'') (AuthReply False None))\<rparr>"
  have h1: "started (ApiClient password_changed [] (Login [VStr ''alice'', VStr ''secret''])) (mount (Available Map.empty)) = [?k]"
    by (simp add: ApiClient.simps started_simps Let_def arg_def JSON_stringify_def post_def no_options_def config_def)
  have h2: "password_changed (call_url ?k) (call_init ?k) = Responds 120 ?r"
    by (simp add: password_changed_def)
  have h3: "120 < call_timeout ?k" by simp
  have h4: "\<not> ok ?r" by (simp add: ok_def)
  from non_2xx_rejects [OF h1 h2 h3 h4] h1 show ?thesis by simp
qed

theorem error_member_counterexample:
  "fst (ApiClient empty_error [] Logout (mount (Available Map.empty))) = Rejected (Error ''Error'' ''Request failed'')
   \<and> fst (ApiClient empty_error [] Logout (mount (Available Map.empty))) \<noteq> Rejected (Error ''Error'' [])
   \<and> fst (ApiClient null_error [] Logout (mount (Available Map.empty))) = Rejected (TypeError ''error'')
   \<and> fst (ApiClient null_error [] Logout (mount (Available Map.empty))) \<noteq> Rejected (Error ''Error'' ''Request failed'')"
  by (simp add: ApiClient.simps fst_request fst_requestWithTimeout empty_error_def null_error_def answering_def ok_def
        TypeError_def)

section \<open>The multipart payload of an image diagnosis\<close>

text \<open>
  C10. \<^verbatim>\<open>diagnoseImage\<close> called without symptoms, or with the empty string, sends a form
  with the image entry alone; called with a non-empty string it sends the image entry
  followed by the symptoms entry. So the symptoms entry is there exactly when the
  argument is a non-empty string.
\<close>

theorem diagnoseImage_payload:
  "(symptoms = None \<or> symptoms = Some [] \<longrightarrow>
      map (\<lambda>k. body (call_init k)) (started (ApiClient srv b (DiagnoseImage img symptoms)) w)
        = [FormDataBody [(''image'', FileEntry img)]])
   \<and> (\<forall>s. symptoms = Some s \<and> s \<noteq> [] \<longrightarrow>
      map (\<lambda>k. body (call_init k)) (started (ApiClient srv b (DiagnoseImage img symptoms)) w)
        = [FormDataBody [(''image'', FileEntry img), (''symptoms'', TextEntry s)]])
   \<and> ((''symptoms'' \<in> fst ` set (diagnoseImage_formData img symptoms)) \<longleftrightarrow>
        (\<exists>s. symptoms = Some s \<and> s \<noteq> []))"
  by (cases symptoms) (auto simp add: ApiClient.simps started_simps diagnoseImage_formData_def)

theorem diagnoseImage_payload_witness:
  "map (\<lambda>k. body (call_init k)) (started (ApiClient swamped [] (DiagnoseImage rash_photo (Some []))) (mount (Available Map.empty)))
     = [FormDataBody [(''image'', FileEntry rash_photo)]]
   \<and> map (\<lambda>k. body (call_init k)) (started (ApiClient swamped [] (DiagnoseImage rash_photo (Some ''itchy''))) (mount (Available Map.empty)))
     = [FormDataBody [(''image'', FileEntry rash_photo), (''symptoms'', TextEntry ''itchy'')]]"
  using diagnoseImage_payload [of "Some []" swamped "[]" rash_photo "mount (Available Map.empty)"]
    diagnoseImage_payload [of "Some ''itchy''" swamped "[]" rash_photo "mount (Available Map.empty)"]
  by simp

section \<open>Startup reconciliation\<close>




text \<open>
  C9. When the stored record lacks a username or a password, or has an empty one,
  \<^verbatim>\<open>tryAutoLogin\<close> erases the record and returns: it starts no request and leaves the user
  as it was.
\<close>

theorem malformed_record_is_erased:
  assumes "localStorage w = Available m" and "m STORAGE_KEY = Some (Credentials u p)"
    and "u = None \<or> u = Some [] \<or> p = None \<or> p = Some []"
  shows "tryAutoLogin srv b w = (Resolved (), w\<lparr>localStorage := Available (m(STORAGE_KEY := None))\<rparr>)
     \<and> started (tryAutoLogin srv b) w = []
     \<and> invoked (snd (tryAutoLogin srv b w)) = invoked w
     \<and> user (snd (tryAutoLogin srv b w)) = user w"
  using assms
  by (auto simp add: tryAutoLogin_def run_defs ctx_defs auth_defs started_def)

theorem malformed_record_is_erased_witness:
  "localStorage missing_username = Available [STORAGE_KEY \<mapsto> Credentials None (Some ''secret'')]
   \<and> localStorage (snd (tryAutoLogin session_expired [] missing_username)) = Available Map.empty
   \<and> started (tryAutoLogin session_expired []) missing_username = []
   \<and> user (snd (tryAutoLogin session_expired [] missing_username)) = user missing_username"
proof -
  have h1: "localStorage missing_username = Available [STORAGE_KEY \<mapsto> Credentials None (Some ''secret'')]"
    by (simp add: missing_username_def mount_def)
  have h2: "[STORAGE_KEY \<mapsto> Credentials None (Some ''secret'')] STORAGE_KEY = Some (Credentials None (Some ''secret''))"
    by simp
  have h3: "(None :: string option) = None \<or> (None :: string option) = Some [] \<or> Some ''secret'' = None \<or> Some ''secret'' = Some []"
    by simp
  from malformed_record_is_erased [OF h1 h2 h3, of session_expired "[]"] h1
  show ?thesis by (simp add: fun_eq_iff)
qed

text \<open>
  C1, as amended. When \<^verbatim>\<open>checkAuth\<close> of the gateway throws or reports no session, and
  the stored record has a non-empty username and a non-empty password, the auth context
  calls the login of the gateway exactly once, with them, after the session check. If that
  login resolves with a response that carries a user, that user is signed in and the
  record stays. If it rejects, or resolves with \<^verbatim>\<open>null\<close>, the record is erased and the user
  is null. If it resolves with an object that carries no user, the user is null and the
  record stays.
\<close>

theorem silent_relogin:
  assumes "localStorage w = Available m"
    and "m STORAGE_KEY = Some (Credentials (Some u) (Some p))" and "u \<noteq> []" and "p \<noteq> []"
    and "fst (ApiClient srv b CheckAuth w) \<noteq> Pending"
    and "\<forall>ef usr. fst (ApiClient srv b CheckAuth w) \<noteq> Resolved (Object ef (AuthReply True usr))"
  shows "invoked (snd (checkAuth srv b w)) = invoked w @ [CheckAuth, Login [VStr u, VStr p, VBool True]]
    \<and> map call_url (started (checkAuth srv b) w) = [b @ ''/api/check-auth'', b @ ''/api/login'']
    \<and> map (\<lambda>k. body (call_init k)) (started (checkAuth srv b) w)
        = [NoBody, JsonBody [(''username'', VStr u), (''password'', VStr p)]]
    \<and> (\<forall>ef a usr. fst (ApiClient srv b (Login [VStr u, VStr p, VBool True]) w)
            = Resolved (Object ef (AuthReply a (Some usr))) \<longrightarrow>
          fst (checkAuth srv b w) = Resolved ()
          \<and> user (snd (checkAuth srv b w)) = Some usr
          \<and> localStorage (snd (checkAuth srv b w)) = localStorage w)
    \<and> (\<forall>e. fst (ApiClient srv b (Login [VStr u, VStr p, VBool True]) w) = Rejected e \<longrightarrow>
          fst (checkAuth srv b w) = Resolved ()
          \<and> user (snd (checkAuth srv b w)) = None
          \<and> localStorage (snd (checkAuth srv b w)) = Available (m(STORAGE_KEY := None)))
    \<and> (fst (ApiClient srv b (Login [VStr u, VStr p, VBool True]) w) = Resolved Null \<longrightarrow>
          fst (checkAuth srv b w) = Resolved ()
          \<and> user (snd (checkAuth srv b w)) = None
          \<and> localStorage (snd (checkAuth srv b w)) = Available (m(STORAGE_KEY := None)))
    \<and> (\<forall>ef a. fst (ApiClient srv b (Login [VStr u, VStr p, VBool True]) w)
            = Resolved (Object ef (AuthReply a None)) \<longrightarrow>
          fst (checkAuth srv b w) = Resolved ()
          \<and> user (snd (checkAuth srv b w)) = None
          \<and> localStorage (snd (checkAuth srv b w)) = localStorage w)"
proof -
  let ?L = "Login [VStr u, VStr p, VBool True]"
  define w1 where "w1 = (snd (api srv b CheckAuth w))\<lparr>user := None\<rparr>"
  define r1 where "r1 = tryAutoLogin srv b w1"
  define w2 where "w2 = snd (api srv b ?L w1)"
  have ls1: "localStorage w1 = Available m"
    using assms(1) by (simp add: w1_def snd_api)
  have res: "fst (ApiClient srv b ?L w1) = fst (ApiClient srv b ?L w)"
    by (rule fst_ApiClient_world)
  have att: "r1 =
     (case fst (ApiClient srv b ?L w) of
        Pending \<Rightarrow> (Pending, w2)
      | Rejected e \<Rightarrow> (Resolved (), w2\<lparr>localStorage := Available (m(STORAGE_KEY := None))\<rparr>)
      | Resolved Null \<Rightarrow> (Resolved (), w2\<lparr>localStorage := Available (m(STORAGE_KEY := None))\<rparr>)
      | Resolved (Object ef rep) \<Rightarrow> (Resolved (), w2\<lparr>user := reply_user rep\<rparr>))"
    unfolding r1_def w2_def by (simp add: tryAutoLogin_attempt [OF ls1 assms(2,3,4)] res)
  have not_rejected: "\<And>e. fst r1 \<noteq> Rejected e"
    by (simp add: att split: settled.splits data.splits)
  have ca: "checkAuth srv b w =
     (case fst r1 of
        Pending \<Rightarrow> (Pending, snd r1)
      | Rejected e \<Rightarrow> (Rejected e, (snd r1)\<lparr>loading := False\<rparr>)
      | Resolved x \<Rightarrow> (Resolved (), (snd r1)\<lparr>loading := False\<rparr>))"
  proof -
    have na: "\<not> authenticated rep" if "fst (ApiClient srv b CheckAuth w) = Resolved (Object ef rep)"
      for ef rep
      using that assms(6) by (cases rep) auto
    show ?thesis
      using assms(5) not_rejected na
      by (cases "fst (ApiClient srv b CheckAuth w)")
         (auto simp add: checkAuth_run Let_def r1_def w1_def split: settled.splits data.splits)
  qed
  have w2: "w2 = w1\<lparr>invoked := invoked w1 @ [?L], sent := sent w1 @ started (ApiClient srv b ?L) w1\<rparr>"
    by (simp add: w2_def snd_api)
  have inv1: "invoked w1 = invoked w @ [CheckAuth]"
    and sent1: "sent w1 = sent w @ started (ApiClient srv b CheckAuth) w"
    and u1: "user w1 = None"
    by (simp_all add: w1_def snd_api)
  have inv: "invoked (snd (checkAuth srv b w)) = invoked w2"
    and snt: "sent (snd (checkAuth srv b w)) = sent w2"
    by (simp_all add: ca att split: settled.splits data.splits)
  have calls: "started (checkAuth srv b) w
      = started (ApiClient srv b CheckAuth) w @ started (ApiClient srv b ?L) w1"
    by (simp add: started_def [of "checkAuth srv b"] snt w2 sent1)
  show ?thesis
  proof (intro conjI allI impI)
    show "invoked (snd (checkAuth srv b w)) = invoked w @ [CheckAuth, ?L]"
      by (simp add: inv w2 inv1)
    show "map call_url (started (checkAuth srv b) w) = [b @ ''/api/check-auth'', b @ ''/api/login'']"
      by (simp add: calls login_request) (simp add: ApiClient.simps started_simps)
    show "map (\<lambda>k. body (call_init k)) (started (checkAuth srv b) w)
        = [NoBody, JsonBody [(''username'', VStr u), (''password'', VStr p)]]"
      by (simp add: calls login_request) (simp add: ApiClient.simps started_simps config_def no_options_def)
  next
    fix ef a usr
    assume "fst (ApiClient srv b ?L w) = Resolved (Object ef (AuthReply a (Some usr)))"
    then have "checkAuth srv b w = (Resolved (), w2\<lparr>user := Some usr, loading := False\<rparr>)"
      by (simp add: ca att)
    then show "fst (checkAuth srv b w) = Resolved ()"
      and "user (snd (checkAuth srv b w)) = Some usr"
      and "localStorage (snd (checkAuth srv b w)) = localStorage w"
      by (simp_all add: w2 ls1 assms(1))
  next
    fix e
    assume "fst (ApiClient srv b ?L w) = Rejected e"
    then have "checkAuth srv b w =
        (Resolved (), w2\<lparr>localStorage := Available (m(STORAGE_KEY := None)), loading := False\<rparr>)"
      by (simp add: ca att)
    then show "fst (checkAuth srv b w) = Resolved ()"
      and "user (snd (checkAuth srv b w)) = None"
      and "localStorage (snd (checkAuth srv b w)) = Available (m(STORAGE_KEY := None))"
      by (simp_all add: w2 u1)
  next
    assume "fst (ApiClient srv b ?L w) = Resolved Null"
    then have "checkAuth srv b w =
        (Resolved (), w2\<lparr>localStorage := Available (m(STORAGE_KEY := None)), loading := False\<rparr>)"
      by (simp add: ca att)
    then show "fst (checkAuth srv b w) = Resolved ()"
      and "user (snd (checkAuth srv b w)) = None"
      and "localStorage (snd (checkAuth srv b w)) = Available (m(STORAGE_KEY := None))"
      by (simp_all add: w2 u1)
  next
    fix ef a
    assume "fst (ApiClient srv b ?L w) = Resolved (Object ef (AuthReply a None))"
    then have "checkAuth srv b w = (Resolved (), w2\<lparr>user := None, loading := False\<rparr>)"
      by (simp add: ca att)
    then show "fst (checkAuth srv b w) = Resolved ()"
      and "user (snd (checkAuth srv b w)) = None"
      and "localStorage (snd (checkAuth srv b w)) = localStorage w"
      by (simp_all add: w2 ls1 assms(1))
  qed
qed

theorem silent_relogin_witness:
  "localStorage remembered = Available [STORAGE_KEY \<mapsto> Credentials (Some ''alice'') (Some ''secret'')]
   \<and> fst (ApiClient session_expired [] CheckAuth remembered)
        = Resolved (Object None (AuthReply False None))
   \<and> invoked (snd (checkAuth session_expired [] remembered))
        = [CheckAuth, Login [VStr ''alice'', VStr ''secret'', VBool True]]
   \<and> map call_url (started (checkAuth session_expired []) remembered) = [''/api/check-auth'', ''/api/login'']
   \<and> user (snd (checkAuth session_expired [] remembered)) = Some alice
   \<and> localStorage (snd (checkAuth session_expired [] remembered)) = localStorage remembered
   \<and> map call_url (started (checkAuth password_changed []) remembered) = [''/api/check-auth'', ''/api/login'']
   \<and> user (snd (checkAuth password_changed [] remembered)) = None
   \<and> localStorage (snd (checkAuth password_changed [] remembered))
        = Available ([STORAGE_KEY \<mapsto> Credentials (Some ''alice'') (Some ''secret'')](STORAGE_KEY := None))"
proof -
  let ?m = "[STORAGE_KEY \<mapsto> Credentials (Some ''alice'') (Some ''secret'')]"
  have h1: "localStorage remembered = Available ?m"
    by (simp add: remembered_def mount_def)
  have h2: "?m STORAGE_KEY = Some (Credentials (Some ''alice'') (Some ''secret''))"
    by simp
  have h3: "''alice'' \<noteq> []" and h4: "''secret'' \<noteq> []" by simp_all
  have c1: "fst (ApiClient session_expired [] CheckAuth remembered) = Resolved (Object None (AuthReply False None))"
    by (simp add: eval_defs session_expired_def)
  have c2: "fst (ApiClient password_changed [] CheckAuth remembered) = Resolved (Object None (AuthReply False None))"
    by (simp add: eval_defs password_changed_def)
  have h5: "fst (ApiClient session_expired [] CheckAuth remembered) \<noteq> Pending"
    and h6: "\<forall>ef usr. fst (ApiClient session_expired [] CheckAuth remembered)
        \<noteq> Resolved (Object ef (AuthReply True usr))"
    unfolding c1 by simp_all
  have h7: "fst (ApiClient password_changed [] CheckAuth remembered) \<noteq> Pending"
    and h8: "\<forall>ef usr. fst (ApiClient password_changed [] CheckAuth remembered)
        \<noteq> Resolved (Object ef (AuthReply True usr))"
    unfolding c2 by simp_all
  have l1: "fst (ApiClient session_expired [] (Login [VStr ''alice'', VStr ''secret'', VBool True]) remembered)
      = Resolved (Object None (AuthReply False (Some alice)))"
    by (simp add: eval_defs session_expired_def)
  have l2: "fst (ApiClient password_changed [] (Login [VStr ''alice'', VStr ''secret'', VBool True]) remembered)
      = Rejected (Error ''Error'' ''Invalid credentials'')"
    by (simp add: eval_defs password_changed_def)
  note good = silent_relogin [OF h1 h2 h3 h4 h5 h6]
  note bad = silent_relogin [OF h1 h2 h3 h4 h7 h8]
  from good [THEN conjunct1] good [THEN conjunct2, THEN conjunct1]
    good [THEN conjunct2, THEN conjunct2, THEN conjunct2, THEN conjunct1, rule_format, OF l1]
    bad [THEN conjunct2, THEN conjunct1]
    bad [THEN conjunct2, THEN conjunct2, THEN conjunct2, THEN conjunct2, THEN conjunct1, rule_format, OF l2]
    h1 c1
  show ?thesis by (simp add: remembered_def mount_def)
qed

theorem silent_relogin_counterexample:
  "localStorage blank_username = Available [STORAGE_KEY \<mapsto> Credentials (Some []) (Some ''secret'')]
   \<and> fst (ApiClient session_expired [] CheckAuth blank_username)
        = Resolved (Object None (AuthReply False None))
   \<and> invoked (snd (checkAuth session_expired [] blank_username)) = [CheckAuth]
   \<and> map call_url (started (checkAuth session_expired []) blank_username) = [''/api/check-auth'']
   \<and> fst (ApiClient login_says_null [] (Login [VStr ''alice'', VStr ''secret'', VBool True]) remembered)
        = Resolved Null
   \<and> user (snd (checkAuth login_says_null [] remembered)) = None
   \<and> localStorage (snd (checkAuth login_says_null [] remembered))
        = Available ([STORAGE_KEY \<mapsto> Credentials (Some ''alice'') (Some ''secret'')](STORAGE_KEY := None))
   \<and> fst (ApiClient login_without_user [] (Login [VStr ''alice'', VStr ''secret'', VBool True]) remembered)
        = Resolved (Object None (AuthReply False None))
   \<and> user (snd (checkAuth login_without_user [] remembered)) = None"
proof (intro conjI)
  show "localStorage blank_username = Available [STORAGE_KEY \<mapsto> Credentials (Some []) (Some ''secret'')]"
    by (simp add: blank_username_def mount_def)
  show "fst (ApiClient session_expired [] CheckAuth blank_username)
        = Resolved (Object None (AuthReply False None))"
    by (simp add: eval_defs session_expired_def)
  show "invoked (snd (checkAuth session_expired [] blank_username)) = [CheckAuth]"
    by (simp add: startup_eval blank_username_def session_expired_def)
  show "map call_url (started (checkAuth session_expired []) blank_username) = [''/api/check-auth'']"
    by (simp add: startup_eval blank_username_def session_expired_def snd_requestWithTimeout)
  show "fst (ApiClient login_says_null [] (Login [VStr ''alice'', VStr ''secret'', VBool True]) remembered)
        = Resolved Null"
    by (simp add: eval_defs login_says_null_def)
  show "user (snd (checkAuth login_says_null [] remembered)) = None"
    by (simp add: startup_eval remembered_def login_says_null_def)
  show "localStorage (snd (checkAuth login_says_null [] remembered))
        = Available ([STORAGE_KEY \<mapsto> Credentials (Some ''alice'') (Some ''secret'')](STORAGE_KEY := None))"
    by (simp add: startup_eval remembered_def login_says_null_def)
  show "fst (ApiClient login_without_user [] (Login [VStr ''alice'', VStr ''secret'', VBool True]) remembered)
        = Resolved (Object None (AuthReply False None))"
    by (simp add: eval_defs login_without_user_def)
  show "user (snd (checkAuth login_without_user [] remembered)) = None"
    by (simp add: startup_eval remembered_def login_without_user_def)
qed

section \<open>Logging out\<close>

text \<open>
  C4. When the logout call of the gateway rejects, \<^verbatim>\<open>logout\<close> returns normally with the user
  and the stored record as they were, and shows the failure toast. When the call
  resolves, the user is set to null and the record is erased. While the call is pending
  nothing changes. So the local state is cleared only after a successful call.
\<close>

theorem logout_failure_keeps_state:
  "(\<forall>e. fst (ApiClient srv b Logout w) = Rejected e \<longrightarrow>
      fst (logout srv b w) = Resolved ()
      \<and> user (snd (logout srv b w)) = user w
      \<and> localStorage (snd (logout srv b w)) = localStorage w
      \<and> toasts (snd (logout srv b w)) = toasts w @ [Failure ''Logout failed''])
   \<and> (\<forall>d m. fst (ApiClient srv b Logout w) = Resolved d \<and> localStorage w = Available m \<longrightarrow>
      user (snd (logout srv b w)) = None
      \<and> localStorage (snd (logout srv b w)) = Available (m(STORAGE_KEY := None))
      \<and> toasts (snd (logout srv b w)) = toasts w @ [Success ''Logged out successfully''])
   \<and> (\<forall>d. fst (ApiClient srv b Logout w) = Resolved d \<and> localStorage w = Denied \<longrightarrow>
      user (snd (logout srv b w)) = None
      \<and> toasts (snd (logout srv b w)) = toasts w @ [Failure ''Logout failed''])
   \<and> (fst (ApiClient srv b Logout w) = Pending \<longrightarrow>
      user (snd (logout srv b w)) = user w
      \<and> localStorage (snd (logout srv b w)) = localStorage w
      \<and> toasts (snd (logout srv b w)) = toasts w)"
  by (simp add: logout_def run_defs ctx_defs snd_api fst_api split: settled.splits)

theorem logout_failure_keeps_state_witness:
  "fst (ApiClient crashed [] Logout signed_in) = Rejected (Error ''Error'' ''Internal server error'')
   \<and> user (snd (logout crashed [] signed_in)) = Some alice
   \<and> localStorage (snd (logout crashed [] signed_in))
       = Available [STORAGE_KEY \<mapsto> Credentials (Some ''alice'') (Some ''secret'')]
   \<and> toasts (snd (logout crashed [] signed_in)) = [Failure ''Logout failed'']"
proof -
  have h: "fst (ApiClient crashed [] Logout signed_in) = Rejected (Error ''Error'' ''Internal server error'')"
    by (simp add: eval_defs crashed_def answering_def)
  from logout_failure_keeps_state [of crashed "[]" signed_in, THEN conjunct1, rule_format, OF h] h
  show ?thesis by (simp add: signed_in_def)
qed

section \<open>The remember flag\<close>



end
